theory Spec2Isabelle
  imports Complex_Main
begin

section \<open>The relational store\<close>

text \<open>
  The persistence layer of the student-wellbeing application talks to one SQLite file
  through Python's \<^verbatim>\<open>sqlite3\<close> module. The program's own code is the connection factory
  (\<^verbatim>\<open>connection.py\<close>), the schema script (\<^verbatim>\<open>migrations.py\<close>) and the data classes
  (\<^verbatim>\<open>core/models\<close>). The engine is modelled by an explicit state, the \<open>world\<close>: the
  catalogue of the file (its tables with their rows, the names of its views and of its
  indexes), whether the file can be reached, and every connection object created so far.
  Each operation takes the world and returns a result or an error together with the new
  world.

  The store is the database as the statements of the handle in use see it. Pending and
  committed changes are not told apart: the model says nothing about what another handle
  sees before a commit, about rollback, or about the locks that handles hold against each
  other; a lock that keeps a statement from running is part of the \<open>status\<close> of the file.
\<close>

subsection \<open>Values, columns and table definitions\<close>

text \<open>
  A value is NULL, an integer, a real, a text or a blob: what Python's \<^verbatim>\<open>None\<close>, \<^verbatim>\<open>int\<close>
  (and \<^verbatim>\<open>bool\<close>), \<^verbatim>\<open>float\<close>, \<^verbatim>\<open>str\<close> and \<^verbatim>\<open>bytes\<close> are bound as. A real is read as the
  real number it denotes. \<open>SqlNone\<close> is a column declared without a type.
\<close>

datatype val = Null | IntV int | RealV real | TextV string | BlobV string

datatype sqltype = SqlText | SqlInteger | SqlReal | SqlDate | SqlDatetime | SqlNone

record column =
  col_name :: string
  col_type :: sqltype
  col_pk :: bool
  col_autoinc :: bool
  col_unique :: bool
  col_notnull :: bool

record foreign_key =
  fk_col :: string
  fk_table :: string
  fk_ref :: string

record table_def =
  td_columns :: "column list"
  td_fkeys :: "foreign_key list"

text \<open>A column with a name and a declared type and no constraint.\<close>

definition plain :: "string \<Rightarrow> sqltype \<Rightarrow> column" where
  "plain n t = \<lparr>col_name = n, col_type = t, col_pk = False, col_autoinc = False,
                col_unique = False, col_notnull = False\<rparr>"

text \<open>\<^verbatim>\<open>TEXT PRIMARY KEY\<close>\<close>

definition primary_key :: "string \<Rightarrow> sqltype \<Rightarrow> column" where
  "primary_key n t = (plain n t)\<lparr>col_pk := True\<rparr>"

text \<open>\<^verbatim>\<open>INTEGER PRIMARY KEY AUTOINCREMENT\<close>\<close>

definition autoincrement :: "string \<Rightarrow> column" where
  "autoincrement n = (plain n SqlInteger)\<lparr>col_pk := True, col_autoinc := True\<rparr>"

text \<open>\<^verbatim>\<open>UNIQUE\<close>\<close>

definition unique_col :: "string \<Rightarrow> sqltype \<Rightarrow> column" where
  "unique_col n t = (plain n t)\<lparr>col_unique := True\<rparr>"

text \<open>\<^verbatim>\<open>NOT NULL\<close>\<close>

definition not_null :: "string \<Rightarrow> sqltype \<Rightarrow> column" where
  "not_null n t = (plain n t)\<lparr>col_notnull := True\<rparr>"

text \<open>\<^verbatim>\<open>FOREIGN KEY (c) REFERENCES p(r)\<close>\<close>

definition references :: "string \<Rightarrow> string \<Rightarrow> string \<Rightarrow> foreign_key" where
  "references c p r = \<lparr>fk_col = c, fk_table = p, fk_ref = r\<rparr>"

subsection \<open>Names\<close>

text \<open>
  SQLite compares the names of tables, views, indexes and columns without regard to the
  case of the ASCII letters.
\<close>

definition lower_char :: "char \<Rightarrow> char" where
  "lower_char c =
     (case map_of (zip ''ABCDEFGHIJKLMNOPQRSTUVWXYZ'' ''abcdefghijklmnopqrstuvwxyz'') c of
        Some l \<Rightarrow> l
      | None \<Rightarrow> c)"

definition sql_lower :: "string \<Rightarrow> string" where
  "sql_lower s = map lower_char s"

definition same_name :: "string \<Rightarrow> string \<Rightarrow> bool" where
  "same_name a b = (sql_lower a = sql_lower b)"

subsection \<open>The schema script of \<^verbatim>\<open>migrations.py\<close>\<close>

text \<open>
  The statements the program and its callers send to the engine.
  \<open>CreateTableIfNotExists\<close> is \<^verbatim>\<open>CREATE TABLE IF NOT EXISTS name (...)\<close>;
  \<open>PragmaForeignKeysOn\<close> is \<^verbatim>\<open>PRAGMA foreign_keys = ON\<close>. \<open>InsertValues t vs\<close> is
  \<^verbatim>\<open>INSERT INTO t VALUES (?, ...)\<close> with one bound value per column in the table's
  column order; an \<^verbatim>\<open>INSERT\<close> that names its columns is the same statement with NULL at
  the columns it leaves out, as no column of this schema declares a default.
\<close>

datatype statement =
    PragmaForeignKeysOn
  | CreateTableIfNotExists string table_def
  | InsertValues string "val list"

definition ddl_student :: table_def where
  "ddl_student = \<lparr>td_columns =
      [primary_key ''student_id'' SqlText,
       plain ''first_name'' SqlText,
       plain ''lastname'' SqlText,
       unique_col ''email'' SqlText,
       plain ''password'' SqlText,
       plain ''year'' SqlInteger],
     td_fkeys = []\<rparr>"

definition ddl_attendance :: table_def where
  "ddl_attendance = \<lparr>td_columns =
      [autoincrement ''attendance_id'',
       plain ''student_id'' SqlText,
       plain ''session_date'' SqlDate,
       plain ''session_id'' SqlText,
       plain ''status'' SqlText],
     td_fkeys = [references ''student_id'' ''student'' ''student_id'']\<rparr>"

definition ddl_assessment :: table_def where
  "ddl_assessment = \<lparr>td_columns =
      [autoincrement ''assessment_id'',
       plain ''module_code'' SqlText,
       plain ''title'' SqlText,
       plain ''due_date'' SqlDate,
       plain ''weight'' SqlReal],
     td_fkeys = []\<rparr>"

definition ddl_submission :: table_def where
  "ddl_submission = \<lparr>td_columns =
      [autoincrement ''submission_id'',
       plain ''student_id'' SqlText,
       plain ''assessment_id'' SqlInteger,
       plain ''submitted_at'' SqlDatetime,
       plain ''status'' SqlText,
       plain ''mark'' SqlReal],
     td_fkeys = [references ''student_id'' ''student'' ''student_id'',
                 references ''assessment_id'' ''assessment'' ''assessment_id'']\<rparr>"

definition ddl_wellbeing_record :: table_def where
  "ddl_wellbeing_record = \<lparr>td_columns =
      [autoincrement ''record_id'',
       plain ''student_id'' SqlText,
       plain ''week_start'' SqlDate,
       plain ''stress_level'' SqlInteger,
       plain ''sleep_hours'' SqlReal,
       plain ''source_type'' SqlText],
     td_fkeys = [references ''student_id'' ''student'' ''student_id'']\<rparr>"

definition ddl_alert :: table_def where
  "ddl_alert = \<lparr>td_columns =
      [autoincrement ''alert_id'',
       plain ''student_id'' SqlText,
       plain ''alert_type'' SqlText,
       plain ''reason'' SqlText,
       plain ''created_at'' SqlDatetime,
       plain ''resolved'' SqlInteger],
     td_fkeys = [references ''student_id'' ''student'' ''student_id'']\<rparr>"

definition ddl_retention_rule :: table_def where
  "ddl_retention_rule = \<lparr>td_columns =
      [autoincrement ''rule_id'',
       plain ''data_type'' SqlText,
       plain ''retention_months'' SqlInteger,
       plain ''is_active'' SqlInteger],
     td_fkeys = []\<rparr>"

definition ddl_audit_log :: table_def where
  "ddl_audit_log = \<lparr>td_columns =
      [autoincrement ''log_id'',
       plain ''user_id'' SqlText,
       plain ''entity_type'' SqlText,
       plain ''entity_id'' SqlInteger,
       plain ''action_type'' SqlText,
       plain ''timestamp'' SqlDatetime,
       plain ''details'' SqlText],
     td_fkeys = []\<rparr>"

definition ddl_user :: table_def where
  "ddl_user = \<lparr>td_columns =
      [primary_key ''user_id'' SqlText,
       not_null ''first_name'' SqlText,
       not_null ''lastname'' SqlText,
       not_null ''password_hash'' SqlText,
       not_null ''role'' SqlText],
     td_fkeys = []\<rparr>"

text \<open>The nine tables in the order in which \<^verbatim>\<open>run_migrations\<close> creates them.\<close>

definition migration_tables :: "(string \<times> table_def) list" where
  "migration_tables =
     [(''student'', ddl_student),
      (''attendance'', ddl_attendance),
      (''assessment'', ddl_assessment),
      (''submission'', ddl_submission),
      (''wellbeing_record'', ddl_wellbeing_record),
      (''alert'', ddl_alert),
      (''retention_rule'', ddl_retention_rule),
      (''audit_log'', ddl_audit_log),
      (''user'', ddl_user)]"

definition migration_script :: "statement list" where
  "migration_script = map (\<lambda>(n, d). CreateTableIfNotExists n d) migration_tables"

subsection \<open>The world: store and connections\<close>

text \<open>A table holds its definition and its rows, one value per column in column order.\<close>

record table =
  tdef :: table_def
  rows :: "val list list"

text \<open>
  The catalogue of the file: the tables in the order of their creation, the names of the
  views and the names of the indexes. The engine's own table \<^verbatim>\<open>sqlite_sequence\<close>, in which
  it keeps the largest key of every \<^verbatim>\<open>AUTOINCREMENT\<close> table, is a table of the store like
  any other; a view or an index is present by its name only.
\<close>

record store =
  tables :: "(string \<times> table) list"
  views :: "string list"
  indexes :: "string list"

text \<open>
  \<open>row_factory\<close> of a connection: \<open>TupleRows\<close> is the default (\<^verbatim>\<open>None\<close>), \<open>SqliteRow\<close> is
  \<^verbatim>\<open>sqlite3.Row\<close>.
\<close>

datatype row_factory = TupleRows | SqliteRow

record connection =
  row_factory :: row_factory
  pragma_foreign_keys :: bool
  closed :: bool

text \<open>
  The file behind \<^verbatim>\<open>DB_PATH\<close>: \<open>Reachable\<close>, \<open>Locked\<close> (a lock held elsewhere keeps every
  statement that touches the file from running: it raises) or \<open>Unreachable\<close> (the file
  cannot be opened at all).
\<close>

datatype store_status = Reachable | Locked | Unreachable

text \<open>
  Three functions of the engine are taken as they are, as parameters of the world:
  \<open>conv\<close>, the conversion of a value to the affinity of a column where the value is
  not already of that kind (a text that reads as a number in a numeric column, a number
  in a text column); \<open>cast_integer\<close>, the integer a value that is neither an integer nor
  NULL is read as; and \<open>random_rowid\<close>, the key the engine draws for a table without
  \<^verbatim>\<open>AUTOINCREMENT\<close> whose largest key is the largest there is (\<open>None\<close> when it finds none).
  Every statement proved holds for all three.
\<close>

record engine =
  conv :: "sqltype \<Rightarrow> val \<Rightarrow> val"
  cast_integer :: "val \<Rightarrow> int"
  random_rowid :: "int list \<Rightarrow> int option"

text \<open>
  A connection object is identified by its position in \<open>conns\<close>: \<^verbatim>\<open>sqlite3.connect\<close>
  constructs a new object on every call, and an object that has been closed is still
  the same object.
\<close>

record world =
  status :: store_status
  db :: store
  conns :: "connection list"
  eng :: engine

datatype constraint = NotNullViolation | UniqueViolation | ForeignKeyViolation | DatatypeMismatch

text \<open>
  The exceptions of \<^verbatim>\<open>sqlite3\<close> and of row access: \<open>OperationalError\<close> (file locked or
  unreachable, no such table, wrong number of values, a name that cannot be used, no
  key left), \<open>IntegrityError\<close> with the constraint that failed, \<open>ProgrammingError\<close> (use
  of a closed connection), \<open>OverflowError\<close> (an integer that does not fit 64 bits),
  \<open>DatabaseError\<close> (a catalogue without a proper \<^verbatim>\<open>sqlite_sequence\<close>), \<open>IndexError\<close> and
  \<open>TypeError\<close> (indexing a fetched row).
\<close>

datatype error =
    OperationalError
  | IntegrityError constraint
  | ProgrammingError
  | OverflowError
  | DatabaseError
  | IndexError
  | TypeError

definition usable :: "world \<Rightarrow> nat \<Rightarrow> bool" where
  "usable w h = (h < length (conns w) \<and> \<not> closed (conns w ! h))"

definition table_exists :: "(string \<times> table) list \<Rightarrow> string \<Rightarrow> bool" where
  "table_exists ts n = list_ex (\<lambda>(k, t). same_name k n) ts"

text \<open>The table called \<open>n\<close>, with the name it has in the catalogue.\<close>

definition find_table :: "(string \<times> table) list \<Rightarrow> string \<Rightarrow> (string \<times> table) option" where
  "find_table ts n = find (\<lambda>(k, t). same_name k n) ts"

definition lookup_table :: "(string \<times> table) list \<Rightarrow> string \<Rightarrow> table option" where
  "lookup_table ts n = map_option snd (find_table ts n)"

definition view_exists :: "store \<Rightarrow> string \<Rightarrow> bool" where
  "view_exists s n = list_ex (\<lambda>v. same_name v n) (views s)"

definition index_exists :: "store \<Rightarrow> string \<Rightarrow> bool" where
  "index_exists s n = list_ex (\<lambda>i. same_name i n) (indexes s)"

subsection \<open>Opening, configuring and closing a connection\<close>

text \<open>\<^verbatim>\<open>sqlite3.connect(DB_PATH)\<close>: a new connection object with the module's defaults.\<close>

definition sqlite3_connect :: "world \<Rightarrow> (error + nat) \<times> world" where
  "sqlite3_connect w =
     (if status w = Unreachable then (Inl OperationalError, w)
      else (Inr (length (conns w)),
            w\<lparr>conns := conns w @
                 [\<lparr>row_factory = TupleRows, pragma_foreign_keys = False, closed = False\<rparr>]\<rparr>))"

text \<open>\<^verbatim>\<open>conn.row_factory = f\<close>\<close>

definition set_row_factory :: "world \<Rightarrow> nat \<Rightarrow> row_factory \<Rightarrow> (error + unit) \<times> world" where
  "set_row_factory w h f =
     (if h < length (conns w)
      then (Inr (), w\<lparr>conns := (conns w)[h := (conns w ! h)\<lparr>row_factory := f\<rparr>]\<rparr>)
      else (Inl ProgrammingError, w))"

text \<open>\<^verbatim>\<open>conn.commit()\<close>: nothing of the store changes in the view of the connection itself.\<close>

definition commit :: "world \<Rightarrow> nat \<Rightarrow> (error + unit) \<times> world" where
  "commit w h = (if usable w h then (Inr (), w) else (Inl ProgrammingError, w))"

text \<open>\<^verbatim>\<open>conn.close()\<close>: closing a closed connection is allowed.\<close>

definition close :: "world \<Rightarrow> nat \<Rightarrow> (error + unit) \<times> world" where
  "close w h =
     (if h < length (conns w)
      then (Inr (), w\<lparr>conns := (conns w)[h := (conns w ! h)\<lparr>closed := True\<rparr>]\<rparr>)
      else (Inl ProgrammingError, w))"

subsection \<open>Rows as they are fetched\<close>

text \<open>
  A fetched row is a plain tuple under the default row factory and a \<^verbatim>\<open>sqlite3.Row\<close>
  (the values together with the column names of the result) under \<open>SqliteRow\<close>.
\<close>

datatype fetched = PyTuple "val list" | Row "string list" "val list"



text \<open>
  How \<^verbatim>\<open>sqlite3.Row\<close> compares a key with a column name: equal strings match, and two
  strings that are both pure ASCII match when they differ in the case of letters only.
\<close>

definition ascii :: "string \<Rightarrow> bool" where
  "ascii s = list_all (\<lambda>c. \<not> digit7 c) s"

definition row_key_eq :: "string \<Rightarrow> string \<Rightarrow> bool" where
  "row_key_eq a b = (a = b \<or> (ascii a \<and> ascii b \<and> sql_lower a = sql_lower b))"

text \<open>The position of the first column name that matches the key.\<close>

fun key_position :: "string \<Rightarrow> string list \<Rightarrow> nat option" where
  "key_position n [] = None"
| "key_position n (k # ks) =
     (if row_key_eq k n then Some 0 else map_option Suc (key_position n ks))"

text \<open>Python's \<^verbatim>\<open>xs[i]\<close> on a sequence: a negative index counts from the end.\<close>

definition seq_getitem :: "val list \<Rightarrow> int \<Rightarrow> error + val" where
  "seq_getitem vs i =
     (if 0 \<le> i \<and> i < int (length vs) then Inr (vs ! nat i)
      else if i < 0 \<and> - int (length vs) \<le> i then Inr (vs ! nat (int (length vs) + i))
      else Inl IndexError)"

text \<open>\<^verbatim>\<open>row[i]\<close> for an integer \<open>i\<close>.\<close>

fun getitem_int :: "fetched \<Rightarrow> int \<Rightarrow> error + val" where
  "getitem_int (PyTuple vs) i = seq_getitem vs i"
| "getitem_int (Row names vs) i = seq_getitem vs i"

text \<open>\<^verbatim>\<open>row["name"]\<close>: a tuple has no names; a \<^verbatim>\<open>Row\<close> gives the first column that matches.\<close>

fun getitem_str :: "fetched \<Rightarrow> string \<Rightarrow> error + val" where
  "getitem_str (PyTuple vs) n = Inl TypeError"
| "getitem_str (Row names vs) n =
     (case key_position n names of
        None \<Rightarrow> Inl IndexError
      | Some i \<Rightarrow> if i < length vs then Inr (vs ! i) else Inl IndexError)"

subsection \<open>Creating a table\<close>

text \<open>Names that begin with \<^verbatim>\<open>sqlite_\<close> are kept for the engine.\<close>

definition reserved_name :: "string \<Rightarrow> bool" where
  "reserved_name n = (take 7 (sql_lower n) = ''sqlite_'')"

text \<open>An \<^verbatim>\<open>INTEGER PRIMARY KEY\<close> column is the table's row id.\<close>

definition is_rowid :: "column \<Rightarrow> bool" where
  "is_rowid c = (col_pk c \<and> col_type c = SqlInteger)"

text \<open>
  Definitions the engine refuses: no column, two columns of one name, more than one
  primary key, \<^verbatim>\<open>AUTOINCREMENT\<close> on anything but an \<^verbatim>\<open>INTEGER PRIMARY KEY\<close>, a foreign key
  on a column the table does not have.
\<close>

definition malformed :: "table_def \<Rightarrow> bool" where
  "malformed d =
     (td_columns d = [] \<or>
      \<not> distinct (map (\<lambda>c. sql_lower (col_name c)) (td_columns d)) \<or>
      1 < length (filter col_pk (td_columns d)) \<or>
      list_ex (\<lambda>c. col_autoinc c \<and> \<not> is_rowid c) (td_columns d) \<or>
      list_ex (\<lambda>k. \<not> list_ex (\<lambda>c. same_name (col_name c) (fk_col k)) (td_columns d))
              (td_fkeys d))"

text \<open>
  A primary key that is not the row id and a \<^verbatim>\<open>UNIQUE\<close> column are kept by an automatic
  index each, named \<^verbatim>\<open>sqlite_autoindex_<table>_<k>\<close> with \<open>k\<close> counting from 1.
\<close>

definition needs_index :: "column \<Rightarrow> bool" where
  "needs_index c = ((col_pk c \<and> \<not> is_rowid c) \<or> col_unique c)"

fun decimal :: "nat \<Rightarrow> string" where
  "decimal n =
     (if n < 10 then [''0123456789'' ! n]
      else decimal (n div 10) @ [''0123456789'' ! (n mod 10)])"

definition autoindexes :: "string \<Rightarrow> table_def \<Rightarrow> string list" where
  "autoindexes n d =
     map (\<lambda>k. ''sqlite_autoindex_'' @ n @ ''_'' @ decimal k)
         [1 ..< Suc (length (filter needs_index (td_columns d)))]"

text \<open>The table a \<^verbatim>\<open>CREATE TABLE\<close> statement makes has no rows.\<close>

definition new_table :: "table_def \<Rightarrow> table" where
  "new_table d = \<lparr>tdef = d, rows = []\<rparr>"

text \<open>\<^verbatim>\<open>sqlite_sequence(name, seq)\<close>, both columns without a type.\<close>

definition sequence_def :: table_def where
  "sequence_def = \<lparr>td_columns = [plain ''name'' SqlNone, plain ''seq'' SqlNone], td_fkeys = []\<rparr>"

definition uses_autoincrement :: "table_def \<Rightarrow> bool" where
  "uses_autoincrement d = list_ex col_autoinc (td_columns d)"

text \<open>
  The catalogue after the table has been made: the table, then \<^verbatim>\<open>sqlite_sequence\<close> if
  the table is the first with \<^verbatim>\<open>AUTOINCREMENT\<close>, and the automatic indexes.
\<close>

definition add_table :: "store \<Rightarrow> string \<Rightarrow> table_def \<Rightarrow> store" where
  "add_table s n d =
     s\<lparr>tables := tables s @ [(n, new_table d)] @
                   (if uses_autoincrement d \<and> \<not> table_exists (tables s) ''sqlite_sequence''
                    then [(''sqlite_sequence'', new_table sequence_def)] else []),
       indexes := indexes s @ autoindexes n d\<rparr>"

text \<open>
  \<^verbatim>\<open>CREATE TABLE IF NOT EXISTS n (...)\<close> on the catalogue: a reserved name is refused; when
  a table or a view of that name exists nothing happens; an index of that name or a
  definition the engine refuses is an error; otherwise the table is made.
\<close>

definition create_table_if_not_exists :: "store \<Rightarrow> string \<Rightarrow> table_def \<Rightarrow> error + store" where
  "create_table_if_not_exists s n d =
     (if reserved_name n then Inl OperationalError
      else if table_exists (tables s) n \<or> view_exists s n then Inr s
      else if index_exists s n \<or> malformed d then Inl OperationalError
      else Inr (add_table s n d))"

subsection \<open>Inserting a row\<close>

definition column_names :: "table_def \<Rightarrow> string list" where
  "column_names d = map col_name (td_columns d)"

text \<open>The position of the first name in a list that is the name \<open>n\<close> to the engine.\<close>

fun position :: "string \<Rightarrow> string list \<Rightarrow> nat option" where
  "position n [] = None"
| "position n (k # ks) = (if same_name k n then Some 0 else map_option Suc (position n ks))"

text \<open>The value a row holds in the column called \<open>n\<close>.\<close>

definition column_value :: "table_def \<Rightarrow> val list \<Rightarrow> string \<Rightarrow> val option" where
  "column_value d r n =
     (case position n (column_names d) of
        None \<Rightarrow> None
      | Some i \<Rightarrow> if i < length r then Some (r ! i) else None)"

text \<open>An integer can be bound when it fits 64 bits; otherwise Python raises.\<close>

definition max_rowid :: int where
  "max_rowid = 2 ^ 63 - 1"

definition bindable :: "val \<Rightarrow> bool" where
  "bindable v = (case v of IntV k \<Rightarrow> - (2 ^ 63) \<le> k \<and> k \<le> max_rowid | _ \<Rightarrow> True)"

text \<open>
  The value as the column stores it. NULL and a blob are never converted; a text in a
  text column, an integer in an integer, date or timestamp column and a real in a real
  column are kept, as is everything in a column without a type. All other cases are
  conversions of the engine (\<open>conv\<close>).
\<close>

definition affinity :: "engine \<Rightarrow> sqltype \<Rightarrow> val \<Rightarrow> val" where
  "affinity e t v =
     (case v of
        Null \<Rightarrow> Null
      | BlobV b \<Rightarrow> BlobV b
      | TextV s \<Rightarrow> if t = SqlText \<or> t = SqlNone then TextV s else conv e t v
      | IntV k \<Rightarrow>
          if t = SqlInteger \<or> t = SqlDate \<or> t = SqlDatetime \<or> t = SqlNone then IntV k
          else conv e t v
      | RealV x \<Rightarrow> if t = SqlReal \<or> t = SqlNone then RealV x else conv e t v)"

definition stored_values :: "engine \<Rightarrow> column list \<Rightarrow> val list \<Rightarrow> val list" where
  "stored_values e cs vs = map (\<lambda>(c, v). affinity e (col_type c) v) (zip cs vs)"

text \<open>
  Equality of two stored values as a key or a unique index sees it: NULL equals nothing,
  an integer and a real are equal when they are the same number, and values of different
  kinds are different.
\<close>

fun sql_eq :: "val \<Rightarrow> val \<Rightarrow> bool" where
  "sql_eq (IntV a) (IntV b) = (a = b)"
| "sql_eq (IntV a) (RealV y) = (of_int a = y)"
| "sql_eq (RealV x) (IntV b) = (x = of_int b)"
| "sql_eq (RealV x) (RealV y) = (x = y)"
| "sql_eq (TextV s) (TextV t) = (s = t)"
| "sql_eq (BlobV s) (BlobV t) = (s = t)"
| "sql_eq _ _ = False"

definition int_keys :: "val list \<Rightarrow> int list" where
  "int_keys vs = concat (map (\<lambda>v. case v of IntV k \<Rightarrow> [k] | _ \<Rightarrow> []) vs)"

text \<open>The values the stored rows hold at position \<open>i\<close>.\<close>

definition column_at :: "val list list \<Rightarrow> nat \<Rightarrow> val list" where
  "column_at rs i = map (\<lambda>r. r ! i) (filter (\<lambda>r. i < length r) rs)"

text \<open>The position of the first element that satisfies \<open>p\<close>.\<close>

fun first_index :: "('a \<Rightarrow> bool) \<Rightarrow> 'a list \<Rightarrow> nat option" where
  "first_index p [] = None"
| "first_index p (x # xs) = (if p x then Some 0 else map_option Suc (first_index p xs))"

definition rowid_index :: "table_def \<Rightarrow> nat option" where
  "rowid_index d = first_index is_rowid (td_columns d)"

text \<open>A table counts its keys in \<^verbatim>\<open>sqlite_sequence\<close> when its row id is \<^verbatim>\<open>AUTOINCREMENT\<close>.\<close>

definition counted :: "table_def \<Rightarrow> bool" where
  "counted d =
     (case rowid_index d of None \<Rightarrow> False | Some i \<Rightarrow> col_autoinc (td_columns d ! i))"

definition integer_of :: "engine \<Rightarrow> val \<Rightarrow> int" where
  "integer_of e v = (case v of IntV k \<Rightarrow> k | Null \<Rightarrow> 0 | _ \<Rightarrow> cast_integer e v)"

text \<open>
  The entry of a table in \<^verbatim>\<open>sqlite_sequence\<close>: the position of the first row whose name
  is the table's name in the catalogue, and the largest key recorded there (0 when
  there is no such row). A catalogue without \<^verbatim>\<open>sqlite_sequence\<close>, or with one that has
  not two columns, is damaged.
\<close>

definition sequence_lookup ::
  "engine \<Rightarrow> (string \<times> table) list \<Rightarrow> string \<Rightarrow> error + (nat option \<times> int)" where
  "sequence_lookup e ts name =
     (case lookup_table ts ''sqlite_sequence'' of
        None \<Rightarrow> Inl DatabaseError
      | Some st \<Rightarrow>
          if length (td_columns (tdef st)) \<noteq> 2 then Inl DatabaseError
          else (case first_index (\<lambda>r. length r = 2 \<and> sql_eq (r ! 0) (TextV name)) (rows st) of
                  None \<Rightarrow> Inr (None, 0)
                | Some j \<Rightarrow> Inr (Some j, integer_of e (rows st ! j ! 1))))"

text \<open>
  The key given to a row that leaves its row id NULL. With \<^verbatim>\<open>AUTOINCREMENT\<close>: one more
  than the largest of the keys in the table and the recorded key \<open>s\<close>, and the table is
  full once the largest key there is has been used. Without: 1 for an empty table, else
  one more than the largest key in the table; when that is the largest key there is, the
  key the engine draws, if it draws an unused one.
\<close>

definition largest :: "int list \<Rightarrow> int" where
  "largest ks = fold max (tl ks) (hd ks)"

definition next_rowid :: "engine \<Rightarrow> bool \<Rightarrow> int \<Rightarrow> int list \<Rightarrow> error + int" where
  "next_rowid e autoinc s ks =
     (if autoinc then
        (let top = max s (if ks = [] then 0 else largest ks)
         in if max_rowid \<le> top then Inl OperationalError else Inr (top + 1))
      else if ks = [] then Inr 1
      else if largest ks < max_rowid then Inr (largest ks + 1)
      else (case random_rowid e ks of
              None \<Rightarrow> Inl OperationalError
            | Some k \<Rightarrow> if k \<in> set ks \<or> k < 1 \<or> max_rowid < k then Inl OperationalError
                        else Inr k))"

text \<open>
  The row with its row id filled in: an integer is kept, NULL gets the next key, and
  any other value is a datatype mismatch. \<open>vs\<close> are the values as stored.
\<close>

definition with_rowid :: "engine \<Rightarrow> table \<Rightarrow> int \<Rightarrow> val list \<Rightarrow> error + val list" where
  "with_rowid e t s vs =
     (case rowid_index (tdef t) of
        None \<Rightarrow> Inr vs
      | Some i \<Rightarrow>
          (case vs ! i of
             IntV k \<Rightarrow> Inr vs
           | Null \<Rightarrow>
               (case next_rowid e (counted (tdef t)) s (int_keys (column_at (rows t) i)) of
                  Inl err \<Rightarrow> Inl err
                | Inr k \<Rightarrow> Inr (vs[i := IntV k]))
           | _ \<Rightarrow> Inl (IntegrityError DatatypeMismatch)))"

text \<open>\<^verbatim>\<open>NOT NULL\<close>: no such column may hold NULL.\<close>

definition not_null_ok :: "column list \<Rightarrow> val list \<Rightarrow> bool" where
  "not_null_ok cs vs = list_all (\<lambda>(c, v). col_notnull c \<longrightarrow> v \<noteq> Null) (zip cs vs)"

text \<open>
  \<^verbatim>\<open>PRIMARY KEY\<close> and \<^verbatim>\<open>UNIQUE\<close>: a value that is not NULL must not equal a value of that
  column. NULLs never collide, also in a primary key that is not the row id.
\<close>

definition unique_ok :: "column list \<Rightarrow> val list list \<Rightarrow> val list \<Rightarrow> bool" where
  "unique_ok cs rs vs =
     list_all (\<lambda>i. (col_pk (cs ! i) \<or> col_unique (cs ! i)) \<longrightarrow>
                      vs ! i = Null \<or> \<not> list_ex (sql_eq (vs ! i)) (column_at rs i))
              [0 ..< length cs]"

text \<open>
  The checks of the row against its own table, in the engine's order: conversion to the
  columns' affinities, the row id, \<^verbatim>\<open>NOT NULL\<close>, then uniqueness. The result is the row
  to store or the error raised. \<open>s\<close> is the key recorded for the table.
\<close>

definition local_check :: "engine \<Rightarrow> table \<Rightarrow> int \<Rightarrow> val list \<Rightarrow> error + val list" where
  "local_check e t s vs =
     (case with_rowid e t s (stored_values e (td_columns (tdef t)) vs) of
        Inl err \<Rightarrow> Inl err
      | Inr vs' \<Rightarrow>
          if \<not> not_null_ok (td_columns (tdef t)) vs' then Inl (IntegrityError NotNullViolation)
          else if \<not> unique_ok (td_columns (tdef t)) (rows t) vs'
          then Inl (IntegrityError UniqueViolation)
          else Inr vs')"

text \<open>
  With foreign keys enabled, a statement that writes to a child table is only accepted
  when every parent table exists and the referenced column is a primary key or unique.
\<close>

definition fk_prepared :: "(string \<times> table) list \<Rightarrow> foreign_key \<Rightarrow> bool" where
  "fk_prepared ts k =
     (case lookup_table ts (fk_table k) of
        None \<Rightarrow> False
      | Some p \<Rightarrow>
          (case position (fk_ref k) (column_names (tdef p)) of
             None \<Rightarrow> False
           | Some j \<Rightarrow> col_pk (td_columns (tdef p) ! j) \<or> col_unique (td_columns (tdef p) ! j)))"

text \<open>
  The rows of the parent as the statement sees them when it ends: a table that refers
  to itself already holds the new row.
\<close>

definition parent_rows ::
  "(string \<times> table) list \<Rightarrow> string \<Rightarrow> val list \<Rightarrow> string \<Rightarrow> val list list" where
  "parent_rows ts n vs p =
     (case lookup_table ts p of
        None \<Rightarrow> []
      | Some pt \<Rightarrow> if same_name p n then rows pt @ [vs] else rows pt)"

text \<open>
  A foreign key holds for a row when the child value is NULL or some parent row has, in
  the referenced column, the child value converted to the affinity of that column.
\<close>

definition fk_holds ::
  "engine \<Rightarrow> (string \<times> table) list \<Rightarrow> string \<Rightarrow> table_def \<Rightarrow> val list \<Rightarrow> foreign_key \<Rightarrow> bool" where
  "fk_holds e ts n d vs k =
     (case column_value d vs (fk_col k) of
        None \<Rightarrow> True
      | Some v \<Rightarrow>
          if v = Null then True
          else (case lookup_table ts (fk_table k) of
                  None \<Rightarrow> False
                | Some pt \<Rightarrow>
                    (case position (fk_ref k) (column_names (tdef pt)) of
                       None \<Rightarrow> False
                     | Some j \<Rightarrow>
                         list_ex (\<lambda>r. j < length r \<and>
                                      sql_eq (r ! j)
                                        (affinity e (col_type (td_columns (tdef pt) ! j)) v))
                                 (parent_rows ts n vs (fk_table k)))))"

text \<open>Replacing the table called \<open>n\<close>.\<close>

fun update_table :: "(string \<times> table) list \<Rightarrow> string \<Rightarrow> table \<Rightarrow> (string \<times> table) list" where
  "update_table [] n t' = []"
| "update_table ((k, t) # ts) n t' =
     (if same_name k n then (k, t') # ts else (k, t) # update_table ts n t')"

text \<open>
  The record of the largest key after a row with key \<open>k\<close> has been stored: a table
  without an entry gets one, and an entry is raised when the key is larger.
\<close>

definition bump_sequence ::
  "(string \<times> table) list \<Rightarrow> string \<Rightarrow> nat option \<Rightarrow> int \<Rightarrow> int \<Rightarrow> (string \<times> table) list" where
  "bump_sequence ts name j s k =
     (case lookup_table ts ''sqlite_sequence'' of
        None \<Rightarrow> ts
      | Some st \<Rightarrow>
          (case j of
             None \<Rightarrow>
               update_table ts ''sqlite_sequence''
                 (st\<lparr>rows := rows st @ [[TextV name, IntV (max s k)]]\<rparr>)
           | Some i \<Rightarrow>
               if s < k
               then update_table ts ''sqlite_sequence''
                      (st\<lparr>rows := (rows st)[i := (rows st ! i)[1 := IntV k]]\<rparr>)
               else ts))"

text \<open>The tables after the row has been stored in the table with catalogue name \<open>name\<close>.\<close>

definition store_row ::
  "(string \<times> table) list \<Rightarrow> string \<Rightarrow> table \<Rightarrow> nat option \<Rightarrow> int \<Rightarrow> val list \<Rightarrow> (string \<times> table) list" where
  "store_row ts name t j s vs =
     (let ts' = update_table ts name (t\<lparr>rows := rows t @ [vs]\<rparr>)
      in case rowid_index (tdef t) of
           None \<Rightarrow> ts'
         | Some i \<Rightarrow>
             if counted (tdef t)
             then (case vs ! i of IntV k \<Rightarrow> bump_sequence ts' name j s k | _ \<Rightarrow> ts')
             else ts')"

text \<open>
  \<^verbatim>\<open>INSERT INTO n VALUES (?, ...)\<close> through connection \<open>h\<close>. The statement is prepared
  (the table, the number of values, with foreign keys enabled the parents, for a counted
  table the \<^verbatim>\<open>sqlite_sequence\<close>), the values are bound, and the row is checked against
  its own table and then, when the connection has enabled them, against its foreign keys.
\<close>

definition insert_values :: "world \<Rightarrow> nat \<Rightarrow> string \<Rightarrow> val list \<Rightarrow> (error + unit) \<times> world" where
  "insert_values w h n vs =
     (if \<not> usable w h then (Inl ProgrammingError, w)
      else if status w \<noteq> Reachable then (Inl OperationalError, w)
      else (case find_table (tables (db w)) n of
              None \<Rightarrow> (Inl OperationalError, w)
            | Some (name, t) \<Rightarrow>
                (let ts = tables (db w);
                     fk = pragma_foreign_keys (conns w ! h);
                     sq = (if counted (tdef t) then sequence_lookup (eng w) ts name
                           else Inr (None, 0))
                 in if length vs \<noteq> length (td_columns (tdef t)) then (Inl OperationalError, w)
                    else if fk \<and> \<not> list_all (fk_prepared ts) (td_fkeys (tdef t))
                    then (Inl OperationalError, w)
                    else (case sq of
                            Inl err \<Rightarrow> (Inl err, w)
                          | Inr (j, s) \<Rightarrow>
                              if \<not> list_all bindable vs then (Inl OverflowError, w)
                              else (case local_check (eng w) t s vs of
                                      Inl err \<Rightarrow> (Inl err, w)
                                    | Inr vs' \<Rightarrow>
                                        if fk \<and> \<not> list_all (fk_holds (eng w) ts name (tdef t) vs')
                                                              (td_fkeys (tdef t))
                                        then (Inl (IntegrityError ForeignKeyViolation), w)
                                        else (Inr (),
                                              w\<lparr>db := (db w)\<lparr>tables :=
                                                    store_row ts name t j s vs'\<rparr>\<rparr>))))))"

subsection \<open>Executing a statement\<close>

text \<open>
  \<^verbatim>\<open>conn.execute(sql)\<close> and \<^verbatim>\<open>cursor.execute(sql)\<close>: a cursor runs its statement on the
  connection it was made from and has no state of its own in the model; none of the
  three statements yields rows. The pragma sets a flag of the connection and does not
  touch the file.
\<close>

fun execute :: "world \<Rightarrow> nat \<Rightarrow> statement \<Rightarrow> (error + unit) \<times> world" where
  "execute w h PragmaForeignKeysOn =
     (if \<not> usable w h then (Inl ProgrammingError, w)
      else (Inr (), w\<lparr>conns := (conns w)[h := (conns w ! h)\<lparr>pragma_foreign_keys := True\<rparr>]\<rparr>))"
| "execute w h (CreateTableIfNotExists n d) =
     (if \<not> usable w h then (Inl ProgrammingError, w)
      else if status w \<noteq> Reachable then (Inl OperationalError, w)
      else (case create_table_if_not_exists (db w) n d of
              Inl err \<Rightarrow> (Inl err, w)
            | Inr s \<Rightarrow> (Inr (), w\<lparr>db := s\<rparr>)))"
| "execute w h (InsertValues n vs) = insert_values w h n vs"

text \<open>Statements one after the other; the first exception ends the run.\<close>

fun execute_all :: "world \<Rightarrow> nat \<Rightarrow> statement list \<Rightarrow> (error + unit) \<times> world" where
  "execute_all w h [] = (Inr (), w)"
| "execute_all w h (s # ss) =
     (case execute w h s of
        (Inl e, w') \<Rightarrow> (Inl e, w')
      | (Inr _, w') \<Rightarrow> execute_all w' h ss)"

section \<open>The connection provider (\<^verbatim>\<open>connection.py\<close>)\<close>

text \<open>
  \<^verbatim>\<open>get_db_connection\<close>: connect, set the row factory to \<^verbatim>\<open>sqlite3.Row\<close>, enable foreign
  keys, return the connection. An exception of any step leaves the function at once.
\<close>

definition get_db_connection :: "world \<Rightarrow> (error + nat) \<times> world" where
  "get_db_connection w =
     (case sqlite3_connect w of
        (Inl e, w1) \<Rightarrow> (Inl e, w1)
      | (Inr conn, w1) \<Rightarrow>
          (case set_row_factory w1 conn SqliteRow of
             (Inl e, w2) \<Rightarrow> (Inl e, w2)
           | (Inr _, w2) \<Rightarrow>
               (case execute w2 conn PragmaForeignKeysOn of
                  (Inl e, w3) \<Rightarrow> (Inl e, w3)
                | (Inr _, w3) \<Rightarrow> (Inr conn, w3))))"

text \<open>\<^verbatim>\<open>get_db_pool\<close>: \<^verbatim>\<open>return get_db_connection()\<close>.\<close>

definition get_db_pool :: "world \<Rightarrow> (error + nat) \<times> world" where
  "get_db_pool w = get_db_connection w"

section \<open>The schema manager (\<^verbatim>\<open>migrations.py\<close>)\<close>

text \<open>
  \<^verbatim>\<open>run_migrations\<close>: open a connection, run the nine \<^verbatim>\<open>CREATE TABLE IF NOT EXISTS\<close>
  statements, commit, close. There is no \<^verbatim>\<open>try\<close>: an exception leaves the function at
  the statement that raised it. The diagnostic prints are not modelled.
\<close>

definition run_migrations :: "world \<Rightarrow> (error + unit) \<times> world" where
  "run_migrations w =
     (case get_db_connection w of
        (Inl e, w1) \<Rightarrow> (Inl e, w1)
      | (Inr conn, w1) \<Rightarrow>
          (case execute_all w1 conn migration_script of
             (Inl e, w2) \<Rightarrow> (Inl e, w2)
           | (Inr _, w2) \<Rightarrow>
               (case commit w2 conn of
                  (Inl e, w3) \<Rightarrow> (Inl e, w3)
                | (Inr _, w3) \<Rightarrow> close w3 conn)))"

section \<open>The data records (\<^verbatim>\<open>core/models\<close>)\<close>

text \<open>\<^verbatim>\<open>class AttendanceStatus(str, Enum)\<close> with the string each member stands for.\<close>

datatype AttendanceStatus = PRESENT | ABSENT | EXCUSED

fun AttendanceStatus_value :: "AttendanceStatus \<Rightarrow> string" where
  "AttendanceStatus_value PRESENT = ''Present''"
| "AttendanceStatus_value ABSENT = ''Absent''"
| "AttendanceStatus_value EXCUSED = ''Excused''"

text \<open>A \<^verbatim>\<open>datetime.datetime\<close> value by its components.\<close>

record datetime =
  dt_year :: int
  dt_month :: int
  dt_day :: int
  dt_hour :: int
  dt_minute :: int
  dt_second :: int
  dt_microsecond :: int

text \<open>
  \<^verbatim>\<open>@dataclass class Alert\<close>. The generated constructor takes the five fields without a
  default and, optionally, \<^verbatim>\<open>resolved\<close>, whose default is \<^verbatim>\<open>False\<close>; the argument that
  may be left out is an \<open>option\<close>.
\<close>

record Alert =
  alert_id :: int
  student_id :: string
  alert_type :: string
  reason :: string
  created_at :: datetime
  resolved :: bool

definition Alert_init ::
  "int \<Rightarrow> string \<Rightarrow> string \<Rightarrow> string \<Rightarrow> datetime \<Rightarrow> bool option \<Rightarrow> Alert" where
  "Alert_init aid sid atype why stamp res =
     \<lparr>alert_id = aid, student_id = sid, alert_type = atype, reason = why,
      created_at = stamp,
      resolved = (case res of None \<Rightarrow> False | Some b \<Rightarrow> b)\<rparr>"

text \<open>
  The declarations of the four data classes as data: the fields in the order of the
  class body, each with its annotation.
\<close>

datatype pytype = PyInt | PyStr | PyBool | PyFloat | PyDate | PyDatetime | PyAttendanceStatus

definition Student_fields :: "(string \<times> pytype) list" where
  "Student_fields =
     [(''student_id'', PyStr),
      (''first_name'', PyStr),
      (''lastname'', PyStr),
      (''email'', PyStr),
      (''password'', PyStr),
      (''year'', PyStr)]"

definition AttendanceRecord_fields :: "(string \<times> pytype) list" where
  "AttendanceRecord_fields =
     [(''attendance_id'', PyInt),
      (''student_id'', PyStr),
      (''session_date'', PyDate),
      (''session_id'', PyStr),
      (''status'', PyAttendanceStatus)]"

definition Alert_fields :: "(string \<times> pytype) list" where
  "Alert_fields =
     [(''alert_id'', PyInt),
      (''student_id'', PyStr),
      (''alert_type'', PyStr),
      (''reason'', PyStr),
      (''created_at'', PyDatetime),
      (''resolved'', PyBool)]"

definition AuditLog_fields :: "(string \<times> pytype) list" where
  "AuditLog_fields =
     [(''log_id'', PyInt),
      (''user_id'', PyInt),
      (''entitiy_type'', PyStr),
      (''entity_id'', PyInt),
      (''action_type'', PyStr),
      (''timestamp'', PyDatetime),
      (''details'', PyStr)]"

text \<open>\<^verbatim>\<open>Student.full_name\<close>: first and last name with one space between them.\<close>

definition full_name :: "string \<Rightarrow> string \<Rightarrow> string" where
  "full_name first_name lastname = first_name @ '' '' @ lastname"

section \<open>What the specification says, for comparison\<close>

text \<open>
  The native type the specification gives to a column: the attendance status is the
  closed enumeration, the columns marked 0/1 are booleans, and otherwise a text column
  is a string, an integer column an integer, a real column a float, a date a date value
  and a timestamp a datetime value.
\<close>

definition native_type :: "string \<Rightarrow> column \<Rightarrow> pytype" where
  "native_type tbl c =
     (if tbl = ''attendance'' \<and> col_name c = ''status'' then PyAttendanceStatus
      else if col_name c = ''resolved'' \<or> col_name c = ''is_active'' then PyBool
      else case col_type c of
             SqlText \<Rightarrow> PyStr
           | SqlInteger \<Rightarrow> PyInt
           | SqlReal \<Rightarrow> PyFloat
           | SqlDate \<Rightarrow> PyDate
           | SqlDatetime \<Rightarrow> PyDatetime)"

text \<open>The fields a field-for-field mirror of a table has.\<close>

definition mirror_fields :: "string \<Rightarrow> table_def \<Rightarrow> (string \<times> pytype) list" where
  "mirror_fields tbl d = map (\<lambda>c. (col_name c, native_type tbl c)) (td_columns d)"

definition mirrors :: "(string \<times> pytype) list \<Rightarrow> string \<Rightarrow> table_def \<Rightarrow> bool" where
  "mirrors fs tbl d = (fs = mirror_fields tbl d)"

text \<open>The fields that differ from the mirror, each paired with what the mirror has there.\<close>

definition mismatches ::
  "(string \<times> pytype) list \<Rightarrow> string \<Rightarrow> table_def \<Rightarrow> ((string \<times> pytype) \<times> (string \<times> pytype)) list" where
  "mismatches fs tbl d = filter (\<lambda>(f, m). f \<noteq> m) (zip fs (mirror_fields tbl d))"

text \<open>
  The schema section of the specification, column by column as it is written there:
  name, conceptual type and the constraints named (\<open>Spec_FK p\<close> for "FK\<rightarrow>p").
\<close>

datatype spec_constraint =
  Spec_PK | Spec_PK_AUTOINCREMENT | Spec_UNIQUE | Spec_NOT_NULL | Spec_FK string

type_synonym spec_column = "string \<times> sqltype \<times> spec_constraint list"

definition spec_schema :: "(string \<times> spec_column list) list" where
  "spec_schema =
     [(''student'',
         [(''student_id'', SqlText, [Spec_PK]),
          (''first_name'', SqlText, []),
          (''lastname'', SqlText, []),
          (''email'', SqlText, [Spec_UNIQUE]),
          (''password'', SqlText, []),
          (''year'', SqlInteger, [])]),
      (''attendance'',
         [(''attendance_id'', SqlInteger, [Spec_PK_AUTOINCREMENT]),
          (''student_id'', SqlText, [Spec_FK ''student'']),
          (''session_date'', SqlDate, []),
          (''session_id'', SqlText, []),
          (''status'', SqlText, [])]),
      (''assessment'',
         [(''assessment_id'', SqlInteger, [Spec_PK_AUTOINCREMENT]),
          (''module_code'', SqlText, []),
          (''title'', SqlText, []),
          (''due_date'', SqlDate, []),
          (''weight'', SqlReal, [])]),
      (''submission'',
         [(''submission_id'', SqlInteger, [Spec_PK_AUTOINCREMENT]),
          (''student_id'', SqlText, [Spec_FK ''student'']),
          (''assessment_id'', SqlInteger, [Spec_FK ''assessment'']),
          (''submitted_at'', SqlDatetime, []),
          (''status'', SqlText, []),
          (''mark'', SqlReal, [])]),
      (''wellbeing_record'',
         [(''record_id'', SqlInteger, [Spec_PK_AUTOINCREMENT]),
          (''student_id'', SqlText, [Spec_FK ''student'']),
          (''week_start'', SqlDate, []),
          (''stress_level'', SqlInteger, []),
          (''sleep_hours'', SqlReal, []),
          (''source_type'', SqlText, [])]),
      (''alert'',
         [(''alert_id'', SqlInteger, [Spec_PK_AUTOINCREMENT]),
          (''student_id'', SqlText, [Spec_FK ''student'']),
          (''alert_type'', SqlText, []),
          (''reason'', SqlText, []),
          (''created_at'', SqlDatetime, []),
          (''resolved'', SqlInteger, [])]),
      (''retention_rule'',
         [(''rule_id'', SqlInteger, [Spec_PK_AUTOINCREMENT]),
          (''data_type'', SqlText, []),
          (''retention_months'', SqlInteger, []),
          (''is_active'', SqlInteger, [])]),
      (''audit_log'',
         [(''log_id'', SqlInteger, [Spec_PK_AUTOINCREMENT]),
          (''user_id'', SqlText, []),
          (''entity_type'', SqlText, []),
          (''entity_id'', SqlInteger, []),
          (''action_type'', SqlText, []),
          (''timestamp'', SqlDatetime, []),
          (''details'', SqlText, [])]),
      (''user'',
         [(''user_id'', SqlText, [Spec_PK]),
          (''first_name'', SqlText, [Spec_NOT_NULL]),
          (''lastname'', SqlText, [Spec_NOT_NULL]),
          (''password_hash'', SqlText, [Spec_NOT_NULL]),
          (''role'', SqlText, [Spec_NOT_NULL])])]"

definition is_spec_key :: "spec_column \<Rightarrow> bool" where
  "is_spec_key c = (case c of (n, t, cs) \<Rightarrow> Spec_PK \<in> set cs \<or> Spec_PK_AUTOINCREMENT \<in> set cs)"

text \<open>The primary-key column of a table of the specification: what "FK\<rightarrow>p" refers to.\<close>

definition spec_key_of :: "(string \<times> spec_column list) list \<Rightarrow> string \<Rightarrow> string" where
  "spec_key_of schema p =
     (case map_of schema p of
        None \<Rightarrow> []
      | Some cols \<Rightarrow> (case filter is_spec_key cols of [] \<Rightarrow> [] | c # _ \<Rightarrow> fst c))"

definition spec_column_def :: "spec_column \<Rightarrow> column" where
  "spec_column_def c =
     (case c of (n, t, cs) \<Rightarrow>
        \<lparr>col_name = n, col_type = t,
         col_pk = (Spec_PK \<in> set cs \<or> Spec_PK_AUTOINCREMENT \<in> set cs),
         col_autoinc = (Spec_PK_AUTOINCREMENT \<in> set cs),
         col_unique = (Spec_UNIQUE \<in> set cs),
         col_notnull = (Spec_NOT_NULL \<in> set cs)\<rparr>)"

definition spec_fkeys :: "(string \<times> spec_column list) list \<Rightarrow> spec_column \<Rightarrow> foreign_key list" where
  "spec_fkeys schema c =
     (case c of (n, t, cs) \<Rightarrow>
        concat (map (\<lambda>k. case k of
                            Spec_FK p \<Rightarrow> [\<lparr>fk_col = n, fk_table = p, fk_ref = spec_key_of schema p\<rparr>]
                          | _ \<Rightarrow> [])
                    cs))"

definition spec_table_def :: "(string \<times> spec_column list) list \<Rightarrow> spec_column list \<Rightarrow> table_def" where
  "spec_table_def schema cols =
     \<lparr>td_columns = map spec_column_def cols,
      td_fkeys = concat (map (spec_fkeys schema) cols)\<rparr>"

text \<open>The nine tables of the specification as table definitions.\<close>

definition spec_tables :: "(string \<times> table_def) list" where
  "spec_tables = map (\<lambda>(n, cols). (n, spec_table_def spec_schema cols)) spec_schema"

section \<open>Auxiliary notions for the proofs\<close>

text \<open>
  The effect of a sequence of \<^verbatim>\<open>CREATE TABLE IF NOT EXISTS\<close> statements on the catalogue,
  as a function of its own: the error that ended the run, if any, and the catalogue
  reached.
\<close>

fun run_script :: "store \<Rightarrow> (string \<times> table_def) list \<Rightarrow> error option \<times> store" where
  "run_script s [] = (None, s)"
| "run_script s ((n, d) # ds) =
     (case create_table_if_not_exists s n d of
        Inl e \<Rightarrow> (Some e, s)
      | Inr s' \<Rightarrow> run_script s' ds)"

text \<open>The state of a connection as \<^verbatim>\<open>get_db_connection\<close> hands it out.\<close>

definition fresh_connection :: connection where
  "fresh_connection = \<lparr>row_factory = SqliteRow, pragma_foreign_keys = True, closed = False\<rparr>"

subsection \<open>Concrete stores\<close>

text \<open>
  For the examples, an engine that converts nothing: the values of the examples are
  texts in text columns, texts that do not read as numbers in date columns, integers in
  integer columns and NULL, which the engine stores as they are.
\<close>

definition no_conversion :: engine where
  "no_conversion = \<lparr>conv = (\<lambda>t v. v), cast_integer = (\<lambda>v. 0), random_rowid = (\<lambda>ks. None)\<rparr>"

text \<open>An empty file, a locked file, and a file that already holds a table called \<^verbatim>\<open>student\<close>
  of another shape with one row.\<close>

definition empty_db :: store where
  "empty_db = \<lparr>tables = [], views = [], indexes = []\<rparr>"

definition empty_store :: world where
  "empty_store = \<lparr>status = Reachable, db = empty_db, conns = [], eng = no_conversion\<rparr>"

definition locked_store :: world where
  "locked_store = \<lparr>status = Locked, db = empty_db, conns = [], eng = no_conversion\<rparr>"

definition legacy_student :: table where
  "legacy_student =
     \<lparr>tdef = \<lparr>td_columns = [primary_key ''id'' SqlInteger, plain ''name'' SqlText],
               td_fkeys = []\<rparr>,
      rows = [[IntV 1, TextV ''Ada'']]\<rparr>"

definition legacy_store :: world where
  "legacy_store =
     \<lparr>status = Reachable,
      db = \<lparr>tables = [(''student'', legacy_student)], views = [], indexes = []\<rparr>,
      conns = [], eng = no_conversion\<rparr>"


section \<open>Properties of the connection provider and the schema manager\<close>

subsection \<open>What the two routines compute\<close>

lemma get_db_connection_eq:
  "get_db_connection w =
     (if status w = Unreachable then (Inl OperationalError, w)
      else (Inr (length (conns w)), w\<lparr>conns := conns w @ [fresh_connection]\<rparr>))"
  by (simp add: get_db_connection_def sqlite3_connect_def set_row_factory_def usable_def
      fresh_connection_def)

lemma execute_all_script:
  "usable w h \<Longrightarrow> status w = Reachable \<Longrightarrow>
   execute_all w h (map (\<lambda>(n, d). CreateTableIfNotExists n d) ds) =
     (case run_script (db w) ds of
        (None, s) \<Rightarrow> (Inr (), w\<lparr>db := s\<rparr>)
      | (Some e, s) \<Rightarrow> (Inl e, w\<lparr>db := s\<rparr>))"
proof (induction ds arbitrary: w)
  case Nil
  then show ?case by simp
next
  case (Cons a ds)
  obtain n d where a: "a = (n, d)" by (cases a)
  show ?case
  proof (cases "create_table_if_not_exists (db w) n d")
    case (Inl e)
    with Cons.prems show ?thesis by (simp add: a)
  next
    case (Inr s)
    have "usable (w\<lparr>db := s\<rparr>) h" "status (w\<lparr>db := s\<rparr>) = Reachable"
      using Cons.prems by (simp_all add: usable_def)
    from Cons.IH[OF this] Inr Cons.prems show ?thesis
      by (simp add: a split: prod.splits option.splits)
  qed
qed

lemma run_migrations_eq:
  "run_migrations w =
     (case status w of
        Unreachable \<Rightarrow> (Inl OperationalError, w)
      | Locked \<Rightarrow> (Inl OperationalError, w\<lparr>conns := conns w @ [fresh_connection]\<rparr>)
      | Reachable \<Rightarrow>
          (case run_script (db w) migration_tables of
             (None, s) \<Rightarrow>
               (Inr (), w\<lparr>db := s, conns := conns w @ [fresh_connection\<lparr>closed := True\<rparr>]\<rparr>)
           | (Some e, s) \<Rightarrow>
               (Inl e, w\<lparr>db := s, conns := conns w @ [fresh_connection]\<rparr>)))"
proof (cases "status w")
  case Reachable
  let ?w1 = "w\<lparr>conns := conns w @ [fresh_connection]\<rparr>"
  have u: "usable ?w1 (length (conns w))" "status ?w1 = Reachable"
    using Reachable by (simp_all add: usable_def fresh_connection_def)
  obtain r s where rs: "run_script (db w) migration_tables = (r, s)"
    by (cases "run_script (db w) migration_tables")
  show ?thesis
    using Reachable execute_all_script[OF u, of migration_tables] rs
    by (cases r)
       (simp_all add: run_migrations_def get_db_connection_eq migration_script_def commit_def
          close_def usable_def fresh_connection_def)
next
  case Locked
  let ?w1 = "w\<lparr>conns := conns w @ [fresh_connection]\<rparr>"
  have u: "usable ?w1 (length (conns w))" "status ?w1 \<noteq> Reachable"
    using Locked by (simp_all add: usable_def fresh_connection_def)
  show ?thesis
    using Locked u
    by (simp add: run_migrations_def get_db_connection_eq migration_script_def
        migration_tables_def)
next
  case Unreachable
  then show ?thesis by (simp add: run_migrations_def get_db_connection_eq)
qed

subsection \<open>A script of \<^verbatim>\<open>CREATE TABLE IF NOT EXISTS\<close> statements\<close>

lemma table_exists_append:
  "table_exists (ts @ us) n = (table_exists ts n \<or> table_exists us n)"
  by (simp add: table_exists_def)

lemma table_exists_single: "table_exists [(k, t)] n = same_name k n"
  by (simp add: table_exists_def)

lemma same_name_refl: "same_name n n"
  by (simp add: same_name_def)

lemma lookup_table_append:
  "lookup_table ts n = Some t \<Longrightarrow> lookup_table (ts @ us) n = Some t"
  by (induction ts) (auto simp: lookup_table_def find_table_def split: if_splits)

lemma lookup_table_None: "lookup_table ts n = None \<longleftrightarrow> \<not> table_exists ts n"
  by (auto simp: lookup_table_def find_table_def table_exists_def find_None_iff list_ex_iff)

lemma lookup_table_append_absent:
  "\<not> table_exists ts n \<Longrightarrow> lookup_table (ts @ us) n = lookup_table us n"
  by (induction ts) (auto simp: lookup_table_def find_table_def table_exists_def)

lemma lookup_table_Cons_same: "lookup_table ((n, t) # ts) n = Some t"
  by (simp add: lookup_table_def find_table_def same_name_refl)

text \<open>One statement: what it adds to the catalogue.\<close>

lemma create_extends:
  assumes "create_table_if_not_exists s n d = Inr s'"
  shows "\<exists>new. tables s' = tables s @ new \<and>
               set new \<subseteq> {(n, new_table d), (''sqlite_sequence'', new_table sequence_def)}"
    and "views s' = views s"
    and "\<exists>new. indexes s' = indexes s @ new \<and> set new \<subseteq> set (autoindexes n d)"
    and "\<not> reserved_name n"
    and "table_exists (tables s') n \<or> view_exists s' n"
  using assms
  by (auto simp: create_table_if_not_exists_def add_table_def table_exists_def
      same_name_refl view_exists_def split: if_splits)

lemma create_noop:
  "\<not> reserved_name n \<Longrightarrow> table_exists (tables s) n \<or> view_exists s n \<Longrightarrow>
   create_table_if_not_exists s n d = Inr s"
  by (simp add: create_table_if_not_exists_def)

text \<open>A whole script: tables and indexes are only added, views are left alone.\<close>

lemma run_script_extends:
  "run_script s ds = (r, sf) \<Longrightarrow>
   (\<exists>new. tables sf = tables s @ new \<and>
           set new \<subseteq> (\<lambda>(n, d). (n, new_table d)) ` set ds \<union>
                       {(''sqlite_sequence'', new_table sequence_def)}) \<and>
   views sf = views s \<and>
   (\<exists>new. indexes sf = indexes s @ new \<and>
           set new \<subseteq> (\<Union>(n, d) \<in> set ds. set (autoindexes n d)))"
proof (induction ds arbitrary: s)
  case Nil
  then show ?case by simp
next
  case (Cons a ds)
  obtain n d where a: "a = (n, d)" by (cases a)
  show ?case
  proof (cases "create_table_if_not_exists s n d")
    case (Inl e)
    with Cons.prems show ?thesis by (simp add: a)
  next
    case (Inr s1)
    with Cons.prems have run: "run_script s1 ds = (r, sf)" by (simp add: a)
    from create_extends(1)[OF Inr] obtain t1
      where t1: "tables s1 = tables s @ t1"
        "set t1 \<subseteq> {(n, new_table d), (''sqlite_sequence'', new_table sequence_def)}"
      by blast
    from create_extends(3)[OF Inr] obtain i1
      where i1: "indexes s1 = indexes s @ i1" "set i1 \<subseteq> set (autoindexes n d)"
      by blast
    have v1: "views s1 = views s" by (rule create_extends(2)[OF Inr])
    from Cons.IH[OF run] obtain t2 i2
      where t2: "tables sf = tables s1 @ t2"
        "set t2 \<subseteq> (\<lambda>(n, d). (n, new_table d)) ` set ds \<union>
                    {(''sqlite_sequence'', new_table sequence_def)}"
        and v2: "views sf = views s1"
        and i2: "indexes sf = indexes s1 @ i2"
        "set i2 \<subseteq> (\<Union>(n, d) \<in> set ds. set (autoindexes n d))"
      by blast
    have "tables sf = tables s @ (t1 @ t2)" using t1 t2 by simp
    moreover have "set (t1 @ t2) \<subseteq> (\<lambda>(n, d). (n, new_table d)) ` set (a # ds) \<union>
                    {(''sqlite_sequence'', new_table sequence_def)}"
      using t1(2) t2(2) by (auto simp: a)
    moreover have "indexes sf = indexes s @ (i1 @ i2)" using i1 i2 by simp
    moreover have "set (i1 @ i2) \<subseteq> (\<Union>(n, d) \<in> set (a # ds). set (autoindexes n d))"
      using i1(2) i2(2) by (auto simp: a)
    ultimately show ?thesis using v1 v2 by metis
  qed
qed

lemma run_script_tables:
  "\<exists>new. tables (snd (run_script s ds)) = tables s @ new"
  using run_script_extends[of s ds "fst (run_script s ds)" "snd (run_script s ds)"] by auto

lemma run_script_views: "views (snd (run_script s ds)) = views s"
  using run_script_extends[of s ds "fst (run_script s ds)" "snd (run_script s ds)"] by auto

lemma run_script_keeps_names:
  assumes "table_exists (tables s) n \<or> view_exists s n"
  shows "table_exists (tables (snd (run_script s ds))) n \<or> view_exists (snd (run_script s ds)) n"
  using assms run_script_tables[of s ds] run_script_views[of s ds]
  by (auto simp: table_exists_append view_exists_def)

lemma lookup_table_run_script:
  "lookup_table (tables s) n = Some t \<Longrightarrow>
   lookup_table (tables (snd (run_script s ds))) n = Some t"
  using run_script_tables[of s ds] by (auto simp: lookup_table_append)

text \<open>Run on the catalogue it has reached, a script does what it did and changes nothing.\<close>

lemma run_script_again:
  "run_script s ds = (r, sf) \<Longrightarrow> run_script sf ds = (r, sf)"
proof (induction ds arbitrary: s)
  case Nil
  then show ?case by simp
next
  case (Cons a ds)
  obtain n d where a: "a = (n, d)" by (cases a)
  show ?case
  proof (cases "create_table_if_not_exists s n d")
    case (Inl e)
    with Cons.prems show ?thesis by (auto simp: a)
  next
    case (Inr s1)
    with Cons.prems have run: "run_script s1 ds = (r, sf)" by (simp add: a)
    then have sf: "sf = snd (run_script s1 ds)" by simp
    have "table_exists (tables sf) n \<or> view_exists sf n"
      unfolding sf by (rule run_script_keeps_names) (rule create_extends(5)[OF Inr])
    then have "create_table_if_not_exists sf n d = Inr sf"
      by (rule create_noop[OF create_extends(4)[OF Inr]])
    with Cons.IH[OF run] show ?thesis by (simp add: a)
  qed
qed

subsection \<open>The claims about \<^verbatim>\<open>run_migrations\<close>\<close>

text \<open>
  C1. The claim: \<^verbatim>\<open>run_migrations\<close> always closes its connection before it returns, also
  when table creation fails. On a locked store the first \<^verbatim>\<open>CREATE TABLE\<close> raises, the
  error reaches the caller, and the connection that \<^verbatim>\<open>run_migrations\<close> opened is left
  open: there is no cleanup on the failure path.
\<close>

theorem run_migrations_leaks_connection_on_failure:
  "run_migrations locked_store =
     (Inl OperationalError, locked_store\<lparr>conns := [fresh_connection]\<rparr>) \<and>
   \<not> closed (conns (snd (run_migrations locked_store)) ! 0)"
  by (simp add: run_migrations_eq locked_store_def fresh_connection_def)

text \<open>
  C3. \<^verbatim>\<open>run_migrations\<close> is idempotent: from every world, the catalogue of the store
  (the tables with their names, definitions and rows, the views and the indexes) after
  two runs in succession is the one after one run.
\<close>

theorem run_migrations_idempotent:
  "db (snd (run_migrations (snd (run_migrations w)))) = db (snd (run_migrations w))"
proof (cases "status w")
  case Reachable
  obtain r s where rs: "run_script (db w) migration_tables = (r, s)"
    by (cases "run_script (db w) migration_tables")
  from run_script_again[OF rs] rs Reachable show ?thesis
    by (cases r) (simp_all add: run_migrations_eq)
next
  case Locked
  then show ?thesis by (simp add: run_migrations_eq)
next
  case Unreachable
  then show ?thesis by (simp add: run_migrations_eq)
qed

text \<open>
  C9. \<^verbatim>\<open>run_migrations\<close> never drops or alters an existing table: the tables of the store
  before the run are an initial segment of the tables after it, every table that could
  be looked up before is found afterwards with the same definition and rows, and the
  views are the same.
\<close>

theorem run_migrations_preserves_tables:
  "(\<exists>new. tables (db (snd (run_migrations w))) = tables (db w) @ new) \<and>
   (\<forall>n t. lookup_table (tables (db w)) n = Some t \<longrightarrow>
          lookup_table (tables (db (snd (run_migrations w)))) n = Some t) \<and>
   views (db (snd (run_migrations w))) = views (db w)"
proof (cases "status w")
  case Reachable
  obtain r s where rs: "run_script (db w) migration_tables = (r, s)"
    by (cases "run_script (db w) migration_tables")
  then have s: "s = snd (run_script (db w) migration_tables)" by simp
  have "db (snd (run_migrations w)) = s"
    using Reachable rs by (cases r) (simp_all add: run_migrations_eq)
  then show ?thesis
    unfolding s
    using run_script_tables[of "db w" migration_tables]
      run_script_views[of "db w" migration_tables]
    by (auto simp: lookup_table_run_script)
next
  case Locked
  then show ?thesis by (simp add: run_migrations_eq)
next
  case Unreachable
  then show ?thesis by (simp add: run_migrations_eq)
qed

theorem run_migrations_preserves_tables_witness:
  "lookup_table (tables (db legacy_store)) ''student'' = Some legacy_student \<and>
   lookup_table (tables (db (snd (run_migrations legacy_store)))) ''student'' =
     Some legacy_student"
proof -
  have h: "lookup_table (tables (db legacy_store)) ''student'' = Some legacy_student"
    by (simp add: legacy_store_def lookup_table_Cons_same)
  from run_migrations_preserves_tables[of legacy_store] h show ?thesis by blast
qed

subsection \<open>The data records\<close>

text \<open>
  C10. An \<^verbatim>\<open>Alert\<close> constructed without the \<^verbatim>\<open>resolved\<close> argument is unresolved, whatever
  the other five fields are.
\<close>

theorem Alert_default_unresolved:
  "resolved (Alert_init aid sid atype why stamp None) = False"
  by (simp add: Alert_init_def)

lemma spec_tables_eq: "spec_tables = migration_tables"
  by (simp add: spec_tables_def spec_schema_def migration_tables_def spec_table_def_def
      spec_column_def_def spec_fkeys_def spec_key_of_def is_spec_key_def
      ddl_student_def ddl_attendance_def ddl_assessment_def ddl_submission_def
      ddl_wellbeing_record_def ddl_alert_def ddl_retention_rule_def ddl_audit_log_def
      ddl_user_def plain_def primary_key_def autoincrement_def unique_col_def not_null_def
      references_def)

text \<open>
  C7. The claim: each of the four data classes mirrors its table field for field, with
  the column names and the native types. \<^verbatim>\<open>AttendanceRecord\<close> and \<^verbatim>\<open>Alert\<close> do.
  \<^verbatim>\<open>Student\<close> annotates \<^verbatim>\<open>year\<close> as a string where the column is an integer, and
  \<^verbatim>\<open>AuditLog\<close> annotates \<^verbatim>\<open>user_id\<close> as an integer where the column is a text and names
  its third field \<^verbatim>\<open>entitiy_type\<close> where the column is \<^verbatim>\<open>entity_type\<close>.
\<close>

theorem data_records_against_tables:
  "mirrors AttendanceRecord_fields ''attendance'' ddl_attendance \<and>
   mirrors Alert_fields ''alert'' ddl_alert \<and>
   \<not> mirrors Student_fields ''student'' ddl_student \<and>
   \<not> mirrors AuditLog_fields ''audit_log'' ddl_audit_log \<and>
   mismatches Student_fields ''student'' ddl_student =
     [((''year'', PyStr), (''year'', PyInt))] \<and>
   mismatches AuditLog_fields ''audit_log'' ddl_audit_log =
     [((''user_id'', PyInt), (''user_id'', PyStr)),
      ((''entitiy_type'', PyStr), (''entity_type'', PyStr))]"
  by (simp add: mirrors_def mismatches_def mirror_fields_def native_type_def
      AttendanceRecord_fields_def Alert_fields_def Student_fields_def AuditLog_fields_def
      ddl_attendance_def ddl_alert_def ddl_student_def ddl_audit_log_def
      plain_def primary_key_def autoincrement_def unique_col_def)

subsection \<open>The connection provider\<close>

text \<open>No operation of the model removes a connection object.\<close>

lemma execute_conns_length:
  "length (conns (snd (execute w h s))) = length (conns w)"
  by (cases s)
     (auto simp: insert_values_def Let_def split: option.splits sum.splits prod.splits)

lemma close_conns_length: "length (conns (snd (close w h))) = length (conns w)"
  by (simp add: close_def)

lemma commit_conns_length: "length (conns (snd (commit w h))) = length (conns w)"
  by (simp add: commit_def)

lemma get_db_connection_conns_length:
  "length (conns w) \<le> length (conns (snd (get_db_connection w)))"
  by (simp add: get_db_connection_eq)

lemma run_migrations_conns_length:
  "length (conns w) \<le> length (conns (snd (run_migrations w)))"
  by (cases "status w")
     (simp_all add: run_migrations_eq split: prod.splits option.splits)

lemma get_db_connection_Inr:
  assumes "get_db_connection w = (Inr h, w')"
  shows "h = length (conns w)" and "w' = w\<lparr>conns := conns w @ [fresh_connection]\<rparr>"
  using assms by (auto simp: get_db_connection_eq split: if_splits)

lemma get_db_connection_later:
  assumes "get_db_connection w = (Inr h, w')"
    and "length (conns w') \<le> length (conns w2)"
    and "get_db_connection w2 = (Inr h2, w3)"
  shows "h2 \<noteq> h"
  using get_db_connection_Inr[OF assms(1)] get_db_connection_Inr[OF assms(3)] assms(2)
  by simp

text \<open>Indexing a \<^verbatim>\<open>sqlite3.Row\<close> by position and by column name.\<close>

lemma getitem_int_Row:
  "i < length vs \<Longrightarrow> getitem_int (Row names vs) (int i) = Inr (vs ! i)"
  by (simp add: seq_getitem_def)

lemma getitem_str_Row:
  "key_position n names = Some i \<Longrightarrow> i < length vs \<Longrightarrow>
   getitem_str (Row names vs) n = Inr (vs ! i)"
  by simp



text \<open>
  C8. \<^verbatim>\<open>get_db_pool\<close> behaves as \<^verbatim>\<open>get_db_connection\<close> in every world: same result, same
  new world. It pools nothing: a call that returns gives the next free handle with the
  configuration of \<^verbatim>\<open>get_db_connection\<close>, and a later call gives another handle.
\<close>

theorem get_db_pool_is_get_db_connection:
  "get_db_pool w = get_db_connection w \<and>
   (\<forall>h w'. get_db_pool w = (Inr h, w') \<longrightarrow>
      h = length (conns w) \<and> w' = w\<lparr>conns := conns w @ [fresh_connection]\<rparr> \<and>
      (\<forall>w2 h2 w3. length (conns w') \<le> length (conns w2) \<longrightarrow>
                  get_db_pool w2 = (Inr h2, w3) \<longrightarrow> h2 \<noteq> h))"
proof (intro conjI allI impI)
  show "get_db_pool w = get_db_connection w"
    by (simp add: get_db_pool_def)
next
  fix h w'
  assume "get_db_pool w = (Inr h, w')"
  then have g: "get_db_connection w = (Inr h, w')"
    by (simp add: get_db_pool_def)
  show "h = length (conns w)"
    by (rule get_db_connection_Inr(1)[OF g])
  show "w' = w\<lparr>conns := conns w @ [fresh_connection]\<rparr>"
    by (rule get_db_connection_Inr(2)[OF g])
  fix w2 h2 w3
  assume le: "length (conns w') \<le> length (conns w2)"
    and "get_db_pool w2 = (Inr h2, w3)"
  then have g2: "get_db_connection w2 = (Inr h2, w3)"
    by (simp add: get_db_pool_def)
  show "h2 \<noteq> h"
    by (rule get_db_connection_later[OF g le g2])
qed

theorem get_db_pool_is_get_db_connection_witness:
  "get_db_pool empty_store = (Inr 0, empty_store\<lparr>conns := [fresh_connection]\<rparr>) \<and>
   get_db_pool (empty_store\<lparr>conns := [fresh_connection]\<rparr>) =
     (Inr 1, empty_store\<lparr>conns := [fresh_connection, fresh_connection]\<rparr>) \<and>
   get_db_pool empty_store = get_db_connection empty_store \<and> (1::nat) \<noteq> 0"
proof -
  have a: "get_db_pool empty_store = (Inr 0, empty_store\<lparr>conns := [fresh_connection]\<rparr>)"
    by (simp add: get_db_pool_def get_db_connection_eq empty_store_def)
  have b: "get_db_pool (empty_store\<lparr>conns := [fresh_connection]\<rparr>) =
     (Inr 1, empty_store\<lparr>conns := [fresh_connection, fresh_connection]\<rparr>)"
    by (simp add: get_db_pool_def get_db_connection_eq empty_store_def)
  note inst = get_db_pool_is_get_db_connection[of empty_store]
  have e: "get_db_pool empty_store = get_db_connection empty_store"
    by (rule inst[THEN conjunct1])
  have le: "length (conns (empty_store\<lparr>conns := [fresh_connection]\<rparr>)) \<le>
            length (conns (empty_store\<lparr>conns := [fresh_connection]\<rparr>))"
    by simp
  from inst[THEN conjunct2, rule_format, OF a]
  have "\<forall>w2 h2 w3. length (conns (empty_store\<lparr>conns := [fresh_connection]\<rparr>)) \<le> length (conns w2) \<longrightarrow>
                  get_db_pool w2 = (Inr h2, w3) \<longrightarrow> h2 \<noteq> 0"
    by blast
  from this[rule_format, OF le b] have d: "(1::nat) \<noteq> 0" .
  from a b e d show ?thesis
    by blast
qed

end
